theory Spec2Isabelle
  imports Complex_Main "HOL-Library.Multiset"
begin

section \<open>Python primitives used by server.py\<close>

text \<open>
  Python floats are modelled as real numbers and Python ints as \<open>int\<close>. A Python
  \<open>str\<close> is modelled as a \<open>string\<close> holding its UTF-8 bytes, so that the Cyrillic
  literals of the source can be written down; only equality of strings is used.
\<close>

text \<open>\<open>int(x)\<close> on a float truncates towards zero.\<close>

definition py_int :: "real \<Rightarrow> int" where
  "py_int x = (if 0 \<le> x then \<lfloor>x\<rfloor> else \<lceil>x\<rceil>)"

text \<open>
  \<open>round(x, n)\<close>: the nearest multiple of \<open>10 ^ -n\<close>, a tie going to the even
  neighbour.
\<close>

definition py_round :: "real \<Rightarrow> nat \<Rightarrow> real" where
  "py_round x n =
     (let y = x * 10 ^ n;
          f = \<lfloor>y\<rfloor>;
          r = y - of_int f;
          q = (if r < 1 / 2 then f
               else if 1 / 2 < r then f + 1
               else if even f then f else f + 1)
      in of_int q / 10 ^ n)"

text \<open>\<open>str(k)\<close> for an int, as the f-string \<open>f"unknown_{class_id}"\<close> formats it.\<close>

fun str_nat :: "nat \<Rightarrow> string" where
  "str_nat n =
     (if n < 10 then [''0123456789'' ! n]
      else str_nat (n div 10) @ [''0123456789'' ! (n mod 10)])"

definition str_int :: "int \<Rightarrow> string" where
  "str_int k = (if k < 0 then CHR ''-'' # str_nat (nat (- k)) else str_nat (nat k))"

text \<open>\<open>sum(1 for x in xs if P(x))\<close>\<close>

definition count_where :: "('a \<Rightarrow> bool) \<Rightarrow> 'a list \<Rightarrow> int" where
  "count_where P xs = sum_list [1. x \<leftarrow> xs, P x]"

text \<open>
  Exceptions that reach a handler of server.py: the \<open>KeyError\<close> of a failed dictionary
  subscript, and any exception raised by the collaborators outside this file (upload
  reading, image decoding, the detector), carried with its message.
\<close>

datatype exn = KeyError int | Raised string

text \<open>\<open>str(e)\<close>; for a \<open>KeyError\<close> it is the \<open>repr\<close> of the missing key.\<close>

fun str_exn :: "exn \<Rightarrow> string" where
  "str_exn (KeyError k) = str_int k"
| "str_exn (Raised m) = m"

datatype http_exception = HTTPException (status_code: int) (detail: string)

section \<open>Class vocabulary\<close>

definition CLASS_NAMES :: "int \<rightharpoonup> string" where
  "CLASS_NAMES = [0 \<mapsto> ''good'', 1 \<mapsto> ''bad'', 2 \<mapsto> ''impurity'']"

definition CLASS_COLORS :: "int \<rightharpoonup> int \<times> int \<times> int" where
  "CLASS_COLORS = [0 \<mapsto> (0, 255, 0), 1 \<mapsto> (255, 0, 0), 2 \<mapsto> (255, 165, 0)]"

text \<open>\<open>CLASS_NAMES.get(class_id, f"unknown_{class_id}")\<close>, as in \<open>detect_grains\<close>.\<close>

definition class_name_get :: "int \<Rightarrow> string" where
  "class_name_get class_id =
     (case CLASS_NAMES class_id of
        Some name \<Rightarrow> name
      | None \<Rightarrow> ''unknown_'' @ str_int class_id)"

text \<open>
  \<open>CLASS_NAMES[class_id]\<close>, as in \<open>detect_with_visualization\<close> and
  \<open>draw_detections\<close>: a missing key raises.
\<close>

definition class_name_subscript :: "int \<Rightarrow> exn + string" where
  "class_name_subscript class_id =
     (case CLASS_NAMES class_id of
        Some name \<Rightarrow> Inr name
      | None \<Rightarrow> Inl (KeyError class_id))"

section \<open>Quality grader\<close>

text \<open>
  The five literals returned by \<open>get_quality_grade\<close>, as UTF-8. The source text is
  Russian; the comment after each gives the words.
\<close>

definition label_A :: string where \<comment> \<open>Otlichno (A): "excellent"\<close>
  "label_A = [CHR 0xD0, CHR 0x9E, CHR 0xD1, CHR 0x82, CHR 0xD0, CHR 0xBB, CHR 0xD0, CHR 0xB8,
     CHR 0xD1, CHR 0x87, CHR 0xD0, CHR 0xBD, CHR 0xD0, CHR 0xBE] @ '' (A)''"

definition label_B :: string where \<comment> \<open>Khorosho (B): "good"\<close>
  "label_B = [CHR 0xD0, CHR 0xA5, CHR 0xD0, CHR 0xBE, CHR 0xD1, CHR 0x80, CHR 0xD0, CHR 0xBE,
     CHR 0xD1, CHR 0x88, CHR 0xD0, CHR 0xBE] @ '' (B)''"

definition label_C :: string where \<comment> \<open>Udovletvoritelno (C): "satisfactory"\<close>
  "label_C = [CHR 0xD0, CHR 0xA3, CHR 0xD0, CHR 0xB4, CHR 0xD0, CHR 0xBE, CHR 0xD0, CHR 0xB2,
     CHR 0xD0, CHR 0xBB, CHR 0xD0, CHR 0xB5, CHR 0xD1, CHR 0x82, CHR 0xD0, CHR 0xB2,
     CHR 0xD0, CHR 0xBE, CHR 0xD1, CHR 0x80, CHR 0xD0, CHR 0xB8, CHR 0xD1, CHR 0x82,
     CHR 0xD0, CHR 0xB5, CHR 0xD0, CHR 0xBB, CHR 0xD1, CHR 0x8C, CHR 0xD0, CHR 0xBD,
     CHR 0xD0, CHR 0xBE] @ '' (C)''"

definition label_D :: string where \<comment> \<open>Plokho (D): "poor"\<close>
  "label_D = [CHR 0xD0, CHR 0x9F, CHR 0xD0, CHR 0xBB, CHR 0xD0, CHR 0xBE, CHR 0xD1, CHR 0x85,
     CHR 0xD0, CHR 0xBE] @ '' (D)''"

definition label_F :: string where \<comment> \<open>Ochen plokho (F): "very poor"\<close>
  "label_F = [CHR 0xD0, CHR 0x9E, CHR 0xD1, CHR 0x87, CHR 0xD0, CHR 0xB5, CHR 0xD0, CHR 0xBD,
     CHR 0xD1, CHR 0x8C, CHR 0x20, CHR 0xD0, CHR 0xBF, CHR 0xD0, CHR 0xBB, CHR 0xD0, CHR 0xBE,
     CHR 0xD1, CHR 0x85, CHR 0xD0, CHR 0xBE] @ '' (F)''"

definition get_quality_grade :: "real \<Rightarrow> string" where
  "get_quality_grade percentage =
     (if percentage \<ge> 95 then label_A
      else if percentage \<ge> 85 then label_B
      else if percentage \<ge> 75 then label_C
      else if percentage \<ge> 60 then label_D
      else label_F)"

text \<open>The rank of a grade label under the ordering F < D < C < B < A.\<close>

definition grade_rank :: "string \<Rightarrow> nat" where
  "grade_rank l =
     (if l = label_A then 4
      else if l = label_B then 3
      else if l = label_C then 2
      else if l = label_D then 1
      else 0)"

section \<open>Detections\<close>

text \<open>
  One element of \<open>result.boxes\<close>, as the detector hands it over: the four corners
  \<open>box.xyxy[0]\<close>, the class \<open>box.cls[0]\<close> (a float) and the score \<open>box.conf[0]\<close>.
\<close>

record raw_box =
  xyxy :: "real \<times> real \<times> real \<times> real"
  cls :: real
  conf :: real

record bbox =
  x1 :: real
  y1 :: real
  x2 :: real
  y2 :: real

record bbox_full = bbox +
  center_x :: real
  center_y :: real
  width :: real
  height :: real

text \<open>
  A detection dictionary; the keys \<open>"id"\<close> and \<open>"class"\<close> are the fields \<open>det_id\<close> and
  \<open>class_label\<close>. The bounding box of \<open>/detect\<close> has eight keys, that of
  \<open>/detect-with-image\<close> four.
\<close>

record 'b detection =
  det_id :: int
  class_label :: string
  class_id :: int
  confidence :: real
  box :: 'b

text \<open>The body of the loop \<open>for idx, box in enumerate(result.boxes)\<close> of \<open>detect_grains\<close>.\<close>

definition parse_box :: "int \<Rightarrow> raw_box \<Rightarrow> bbox_full detection" where
  "parse_box idx b =
     (case xyxy b of (bx1, by1, bx2, by2) \<Rightarrow>
        let cx = (bx1 + bx2) / 2;
            cy = (by1 + by2) / 2;
            w = bx2 - bx1;
            h = by2 - by1;
            cid = py_int (cls b)
        in \<lparr>det_id = idx,
            class_label = class_name_get cid,
            class_id = cid,
            confidence = py_round (conf b) 4,
            box = \<lparr>x1 = py_round bx1 2, y1 = py_round by1 2,
                   x2 = py_round bx2 2, y2 = py_round by2 2,
                   center_x = py_round cx 2, center_y = py_round cy 2,
                   width = py_round w 2, height = py_round h 2\<rparr>\<rparr>)"

fun parse_boxes :: "int \<Rightarrow> raw_box list \<Rightarrow> bbox_full detection list" where
  "parse_boxes idx [] = []"
| "parse_boxes idx (b # bs) = parse_box idx b # parse_boxes (idx + 1) bs"

text \<open>
  The same loop in \<open>detect_with_visualization\<close>: the label is \<open>CLASS_NAMES[class_id]\<close>,
  and the first box whose class is not a key ends the loop with the \<open>KeyError\<close>.
\<close>

definition parse_box_vis :: "int \<Rightarrow> raw_box \<Rightarrow> exn + bbox detection" where
  "parse_box_vis idx b =
     (case xyxy b of (bx1, by1, bx2, by2) \<Rightarrow>
        let cid = py_int (cls b)
        in case class_name_subscript cid of
             Inl e \<Rightarrow> Inl e
           | Inr name \<Rightarrow>
               Inr \<lparr>det_id = idx,
                    class_label = name,
                    class_id = cid,
                    confidence = py_round (conf b) 4,
                    box = \<lparr>x1 = py_round bx1 2, y1 = py_round by1 2,
                           x2 = py_round bx2 2, y2 = py_round by2 2\<rparr>\<rparr>)"

fun parse_boxes_vis :: "int \<Rightarrow> raw_box list \<Rightarrow> exn + bbox detection list" where
  "parse_boxes_vis idx [] = Inr []"
| "parse_boxes_vis idx (b # bs) =
     (case parse_box_vis idx b of
        Inl e \<Rightarrow> Inl e
      | Inr d \<Rightarrow>
          (case parse_boxes_vis (idx + 1) bs of
             Inl e \<Rightarrow> Inl e
           | Inr ds \<Rightarrow> Inr (d # ds)))"

section \<open>Statistics\<close>

record class_counts =
  good :: int
  bad :: int
  impurity :: int
  quality_percentage :: real

record statistics = class_counts +
  total_grains :: int
  quality_grade :: string

record batch_statistics = class_counts +
  total :: int

text \<open>\<open>(good_count / total_count * 100) if total_count > 0 else 0\<close>\<close>

definition quality_of :: "int \<Rightarrow> int \<Rightarrow> real" where
  "quality_of good_count total_count =
     (if total_count > 0 then of_int good_count / of_int total_count * 100 else 0)"

text \<open>
  The statistics block, which \<open>detect_grains\<close> and \<open>detect_with_visualization\<close> both
  contain word for word.
\<close>

definition statistics_of :: "'b detection list \<Rightarrow> statistics" where
  "statistics_of detections =
     (let good_count = count_where (\<lambda>d. class_label d = ''good'') detections;
          bad_count = count_where (\<lambda>d. class_label d = ''bad'') detections;
          impurity_count = count_where (\<lambda>d. class_label d = ''impurity'') detections;
          total_count = int (length detections);
          percentage = quality_of good_count total_count
      in \<lparr>good = good_count,
          bad = bad_count,
          impurity = impurity_count,
          quality_percentage = py_round percentage 2,
          total_grains = total_count,
          quality_grade = get_quality_grade percentage\<rparr>)"

text \<open>
  The labels the three counters match; every other label (an \<open>unknown_<id>\<close> label in
  particular) is called unknown.
\<close>

definition known_label :: "string \<Rightarrow> bool" where
  "known_label l \<longleftrightarrow> l = ''good'' \<or> l = ''bad'' \<or> l = ''impurity''"

section \<open>Endpoints\<close>

text \<open>
  Every endpoint first reads the upload, decodes the image and runs the detector
  (\<open>detect_grains\<close> checks the content type before that). These steps are summarised by
  their outcome, which is the argument of each endpoint model: the exception one of them
  raised, with its message, or the boxes of \<open>results[0]\<close>. The models embed what follows
  inside the same \<open>try\<close>: the parsing loop, the statistics block and the handler that
  turns an exception into an HTTP error. The fields of a response that only echo the
  request or the clock are left out, and so is the encoded picture.
\<close>

record 'b response =
  detections :: "'b detection list"
  stats :: statistics

text \<open>
  \<open>draw_detections\<close> up to what it asks of the two dictionaries: per box the colour and
  the class name of the label. The drawing itself is OpenCV's.
\<close>

fun draw_detections :: "raw_box list \<Rightarrow> exn + ((int \<times> int \<times> int) \<times> string) list" where
  "draw_detections [] = Inr []"
| "draw_detections (b # bs) =
     (let cid = py_int (cls b);
          color = (case CLASS_COLORS cid of Some c \<Rightarrow> c | None \<Rightarrow> (255, 255, 255))
      in case class_name_subscript cid of
           Inl e \<Rightarrow> Inl e
         | Inr name \<Rightarrow>
             (case draw_detections bs of
                Inl e \<Rightarrow> Inl e
              | Inr rest \<Rightarrow> Inr ((color, name) # rest)))"

definition detect_grains :: "exn + raw_box list \<Rightarrow> http_exception + bbox_full response" where
  "detect_grains inference =
     (case inference of
        Inl e \<Rightarrow> Inl (HTTPException 500 (str_exn e))
      | Inr boxes \<Rightarrow>
          let ds = parse_boxes 0 boxes
          in Inr \<lparr>detections = ds, stats = statistics_of ds\<rparr>)"

definition detect_with_visualization ::
    "exn + raw_box list \<Rightarrow> bool \<Rightarrow> http_exception + bbox response" where
  "detect_with_visualization inference return_image =
     (case inference of
        Inl e \<Rightarrow> Inl (HTTPException 500 (str_exn e))
      | Inr boxes \<Rightarrow>
          (case parse_boxes_vis 0 boxes of
             Inl e \<Rightarrow> Inl (HTTPException 500 (str_exn e))
           | Inr ds \<Rightarrow>
               (case (if return_image then draw_detections boxes else Inr []) of
                  Inl e \<Rightarrow> Inl (HTTPException 500 (str_exn e))
                | Inr _ \<Rightarrow> Inr \<lparr>detections = ds, stats = statistics_of ds\<rparr>)))"

subsection \<open>Batch endpoint\<close>

text \<open>One entry of \<open>results\<close>: the success dictionary or the failure dictionary.\<close>

datatype batch_result =
  Succeeded string batch_statistics
| Failed string string

fun success :: "batch_result \<Rightarrow> bool" where
  "success (Succeeded _ _) = True"
| "success (Failed _ _) = False"

text \<open>An upload is its \<open>filename\<close> and the outcome of reading, decoding and inference on it.\<close>

type_synonym upload = "string \<times> (exn + raw_box list)"

text \<open>The \<open>try\<close> statement inside the loop of \<open>batch_detect\<close>.\<close>

definition batch_one :: "upload \<Rightarrow> batch_result" where
  "batch_one file =
     (case file of (filename, inference) \<Rightarrow>
        (case inference of
           Inl e \<Rightarrow> Failed filename (str_exn e)
         | Inr boxes \<Rightarrow>
             let g = count_where (\<lambda>b. py_int (cls b) = 0) boxes;
                 bd = count_where (\<lambda>b. py_int (cls b) = 1) boxes;
                 imp = count_where (\<lambda>b. py_int (cls b) = 2) boxes;
                 n = int (length boxes)
             in Succeeded filename
                  \<lparr>good = g, bad = bd, impurity = imp,
                   quality_percentage = py_round (quality_of g n) 2,
                   total = n\<rparr>))"

text \<open>The loop \<open>for file in files\<close>, appending to \<open>results\<close>.\<close>

fun batch_loop :: "upload list \<Rightarrow> batch_result list \<Rightarrow> batch_result list" where
  "batch_loop [] results = results"
| "batch_loop (file # files) results = batch_loop files (results @ [batch_one file])"

record batch_response =
  batch_success :: bool
  processed :: int
  results :: "batch_result list"

definition batch_detect :: "upload list \<Rightarrow> batch_response" where
  "batch_detect files =
     \<lparr>batch_success = True,
      processed = int (length files),
      results = batch_loop files []\<rparr>"

section \<open>Loss formula\<close>

text \<open>
  The module docstring gives the loss per hectare twice: as three steps, and as a
  "simplified formula in one line".
\<close>

definition loss_step1 :: "int \<Rightarrow> real \<Rightarrow> real" where
  "loss_step1 N W1000 = (of_int N * W1000) / 1000"

definition loss_step2 :: "real \<Rightarrow> real \<Rightarrow> real" where
  "loss_step2 W_photo S = W_photo / S"

definition loss_step3 :: "real \<Rightarrow> real" where
  "loss_step3 density = (density * 10000) / 1000"

definition loss_three_steps :: "int \<Rightarrow> real \<Rightarrow> real \<Rightarrow> real" where
  "loss_three_steps N W1000 S = loss_step3 (loss_step2 (loss_step1 N W1000) S)"

definition loss_one_line :: "int \<Rightarrow> real \<Rightarrow> real \<Rightarrow> real" where
  "loss_one_line N W1000 S = of_int N * W1000 * 10 / S"

datatype loss_error = InvalidParameter

text \<open>
  Modelled from the spec: the Loss Estimator. server.py documents the formula and has no
  function that computes it or validates its parameters. The specification's contract:
  an \<open>InvalidParameter\<close> error when \<open>S \<le> 0\<close>, or when \<open>N < 0\<close> or \<open>W1000 < 0\<close>;
  otherwise the one-line formula.
\<close>

definition loss :: "int \<Rightarrow> real \<Rightarrow> real \<Rightarrow> loss_error + real" where
  "loss N W1000 S =
     (if S \<le> 0 \<or> N < 0 \<or> W1000 < 0 then Inl InvalidParameter
      else Inr (loss_one_line N W1000 S))"

section \<open>Facts about the primitives\<close>

lemma count_where_Nil: "count_where P [] = 0"
  by (simp add: count_where_def)

lemma count_where_Cons: "count_where P (x # xs) = (if P x then 1 else 0) + count_where P xs"
  by (simp add: count_where_def)

lemma count_where_append: "count_where P (xs @ ys) = count_where P xs + count_where P ys"
  by (induction xs) (simp_all add: count_where_Nil count_where_Cons)

lemma count_where_filter: "count_where P xs = int (length (filter P xs))"
  by (induction xs) (simp_all add: count_where_Nil count_where_Cons)

lemma count_where_mset: "count_where P xs = int (size (filter_mset P (mset xs)))"
  by (simp add: count_where_filter flip: mset_filter)

lemma count_where_replicate: "count_where P (replicate n x) = (if P x then int n else 0)"
  by (induction n) (simp_all add: count_where_Nil count_where_Cons)

lemma count_where_map: "count_where P (map f xs) = count_where (\<lambda>x. P (f x)) xs"
  by (induction xs) (simp_all add: count_where_Nil count_where_Cons)

lemma count_where_le: "count_where P xs \<le> int (length xs)"
  by (induction xs) (simp_all add: count_where_Nil count_where_Cons)

lemma count_where_eq_length: "count_where P xs = int (length xs) \<longleftrightarrow> (\<forall>x \<in> set xs. P x)"
proof (induction xs)
  case Nil
  show ?case by (simp add: count_where_Nil)
next
  case (Cons x xs)
  have "count_where P xs \<le> int (length xs)" by (rule count_where_le)
  with Cons show ?case by (auto simp: count_where_Cons)
qed

lemma py_int_numeral: "py_int 0 = 0" "py_int 1 = 1" "py_int (numeral n) = numeral n"
  by (simp_all add: py_int_def)

lemma class_name_get_known:
  "class_name_get 0 = ''good''" "class_name_get 1 = ''bad''" "class_name_get 2 = ''impurity''"
  by (simp_all add: class_name_get_def CLASS_NAMES_def)

lemma labels_distinct:
  "label_A \<noteq> label_B" "label_A \<noteq> label_C" "label_A \<noteq> label_D" "label_A \<noteq> label_F"
  "label_B \<noteq> label_C" "label_B \<noteq> label_D" "label_B \<noteq> label_F"
  "label_C \<noteq> label_D" "label_C \<noteq> label_F" "label_D \<noteq> label_F"
  "label_B \<noteq> label_A" "label_C \<noteq> label_A" "label_D \<noteq> label_A" "label_F \<noteq> label_A"
  "label_C \<noteq> label_B" "label_D \<noteq> label_B" "label_F \<noteq> label_B"
  "label_D \<noteq> label_C" "label_F \<noteq> label_C" "label_F \<noteq> label_D"
  by (simp_all add: label_A_def label_B_def label_C_def label_D_def label_F_def)

lemma grade_rank_labels:
  "grade_rank label_A = 4" "grade_rank label_B = 3" "grade_rank label_C = 2"
  "grade_rank label_D = 1" "grade_rank label_F = 0"
  by (simp_all add: grade_rank_def labels_distinct)

section \<open>Facts about parsing and the statistics block\<close>

lemma length_parse_boxes: "length (parse_boxes idx bs) = length bs"
  by (induction bs arbitrary: idx) simp_all

lemma class_label_parse_box: "class_label (parse_box idx b) = class_name_get (py_int (cls b))"
  by (simp add: parse_box_def Let_def split: prod.split)

lemma labels_parse_boxes:
  "map class_label (parse_boxes idx bs) = map (\<lambda>b. class_name_get (py_int (cls b))) bs"
  by (induction bs arbitrary: idx) (simp_all add: class_label_parse_box)

lemma count_label_parse_boxes:
  "count_where (\<lambda>d. class_label d = l) (parse_boxes idx bs)
     = count_where (\<lambda>b. class_name_get (py_int (cls b)) = l) bs"
proof -
  have "count_where (\<lambda>d. class_label d = l) (parse_boxes idx bs)
      = count_where (\<lambda>x. x = l) (map class_label (parse_boxes idx bs))"
    by (simp add: count_where_map)
  also have "\<dots> = count_where (\<lambda>b. class_name_get (py_int (cls b)) = l) bs"
    by (simp add: labels_parse_boxes count_where_map)
  finally show ?thesis .
qed

lemma statistics_fields:
  "good (statistics_of ds) = count_where (\<lambda>d. class_label d = ''good'') ds"
  "bad (statistics_of ds) = count_where (\<lambda>d. class_label d = ''bad'') ds"
  "impurity (statistics_of ds) = count_where (\<lambda>d. class_label d = ''impurity'') ds"
  "total_grains (statistics_of ds) = int (length ds)"
  "quality_percentage (statistics_of ds) =
     py_round (quality_of (count_where (\<lambda>d. class_label d = ''good'') ds) (int (length ds))) 2"
  "quality_grade (statistics_of ds) =
     get_quality_grade (quality_of (count_where (\<lambda>d. class_label d = ''good'') ds) (int (length ds)))"
  by (simp_all add: statistics_of_def Let_def)

lemma three_counts:
  "count_where (\<lambda>d. class_label d = ''good'') ds + count_where (\<lambda>d. class_label d = ''bad'') ds
     + count_where (\<lambda>d. class_label d = ''impurity'') ds
   = count_where (\<lambda>d. known_label (class_label d)) ds"
  by (induction ds) (auto simp: count_where_Nil count_where_Cons known_label_def)

lemma batch_loop_map: "batch_loop files acc = acc @ map batch_one files"
  by (induction files arbitrary: acc) simp_all

lemma results_batch_detect: "results (batch_detect files) = map batch_one files"
  by (simp add: batch_detect_def batch_loop_map)

text \<open>
  Whatever the parameters, the one-line formula of the docstring is a thousand times its
  three-step derivation.
\<close>

lemma loss_one_line_factor:
  "loss_one_line N W1000 S = 1000 * loss_three_steps N W1000 S"
  by (simp add: loss_three_steps_def loss_step1_def loss_step2_def loss_step3_def
      loss_one_line_def)

section \<open>Quality grader\<close>

text \<open>
  C4. The claim: \<open>get_quality_grade\<close> is total, has no error case, and returns
  "Excellent (A)" for \<open>p \<ge> 95\<close>, "Good (B)" for \<open>85 \<le> p < 95\<close>, "Satisfactory (C)"
  for \<open>75 \<le> p < 85\<close>, "Poor (D)" for \<open>60 \<le> p < 75\<close> and "Very Poor (F)" otherwise.
  The thresholds are those of the source, but the strings are not: at 95, 85, 75, 60 and 0
  the function returns none of the five English strings.
\<close>

theorem get_quality_grade_not_english:
  "get_quality_grade 95 \<noteq> ''Excellent (A)''
   \<and> get_quality_grade 85 \<noteq> ''Good (B)''
   \<and> get_quality_grade 75 \<noteq> ''Satisfactory (C)''
   \<and> get_quality_grade 60 \<noteq> ''Poor (D)''
   \<and> get_quality_grade 0 \<noteq> ''Very Poor (F)''"
  by (simp add: get_quality_grade_def label_A_def label_B_def label_C_def label_D_def
      label_F_def)

text \<open>
  C4, as amended. \<open>get_quality_grade\<close> is defined on every real percentage and has no
  error case. It returns the source's Russian literal for A (\<open>label_A\<close>) when \<open>p \<ge> 95\<close>,
  for B when \<open>85 \<le> p < 95\<close>, for C when \<open>75 \<le> p < 85\<close>, for D when \<open>60 \<le> p < 75\<close>
  and for F otherwise; each boundary belongs to the higher grade.
\<close>

theorem get_quality_grade_table:
  "(95 \<le> p \<longrightarrow> get_quality_grade p = label_A) \<and>
   (85 \<le> p \<and> p < 95 \<longrightarrow> get_quality_grade p = label_B) \<and>
   (75 \<le> p \<and> p < 85 \<longrightarrow> get_quality_grade p = label_C) \<and>
   (60 \<le> p \<and> p < 75 \<longrightarrow> get_quality_grade p = label_D) \<and>
   (p < 60 \<longrightarrow> get_quality_grade p = label_F)"
  by (simp add: get_quality_grade_def)

theorem get_quality_grade_table_witness:
  "get_quality_grade 95 = label_A \<and>
   get_quality_grade 85 = label_B \<and> get_quality_grade (949 / 10) = label_B \<and>
   get_quality_grade 75 = label_C \<and> get_quality_grade (849 / 10) = label_C \<and>
   get_quality_grade 60 = label_D \<and> get_quality_grade (749 / 10) = label_D \<and>
   get_quality_grade (599 / 10) = label_F"
  using get_quality_grade_table [of 95] get_quality_grade_table [of 85]
    get_quality_grade_table [of "949 / 10"] get_quality_grade_table [of 75]
    get_quality_grade_table [of "849 / 10"] get_quality_grade_table [of 60]
    get_quality_grade_table [of "749 / 10"] get_quality_grade_table [of "599 / 10"]
  by simp

text \<open>
  C8. The grader is monotonic: for \<open>p1 \<le> p2\<close> the rank of the grade of \<open>p1\<close> is at
  most the rank of the grade of \<open>p2\<close>, under F < D < C < B < A.
\<close>

theorem get_quality_grade_mono:
  "p1 \<le> p2 \<Longrightarrow> grade_rank (get_quality_grade p1) \<le> grade_rank (get_quality_grade p2)"
  by (simp add: get_quality_grade_def grade_rank_labels)

theorem get_quality_grade_mono_witness:
  "(84::real) \<le> 85 \<and> grade_rank (get_quality_grade 84) = 2
   \<and> grade_rank (get_quality_grade 85) = 3
   \<and> grade_rank (get_quality_grade 84) \<le> grade_rank (get_quality_grade 85)"
proof -
  have h: "(84::real) \<le> 85" by simp
  show ?thesis
    using h get_quality_grade_mono [OF h]
    by (simp add: get_quality_grade_def grade_rank_labels)
qed

section \<open>Statistics\<close>

text \<open>
  C5. The claim: for the empty detection sequence the statistics are
  \<open>quality_percentage = 0\<close> and \<open>quality_grade\<close> "Very Poor (F)", and the empty set is
  not an error. The grade of the empty sequence is not that English string.
\<close>

theorem empty_grade_not_english:
  "quality_grade (statistics_of ([] :: bbox_full detection list)) \<noteq> ''Very Poor (F)''"
  by (simp add: statistics_of_def count_where_Nil quality_of_def get_quality_grade_def
      label_F_def)

text \<open>
  C5, as amended. For the empty detection sequence the statistics block gives
  \<open>total_grains = 0\<close>, \<open>quality_percentage = 0\<close> and the source's Russian literal for the
  grade F (\<open>label_F\<close>), and both endpoints that compute statistics return a response, not
  an error.
\<close>

theorem empty_detections:
  "quality_percentage (statistics_of ([] :: 'b detection list)) = 0
   \<and> quality_grade (statistics_of ([] :: 'b detection list)) = label_F
   \<and> total_grains (statistics_of ([] :: 'b detection list)) = 0
   \<and> detect_grains (Inr []) = Inr \<lparr>detections = [], stats = statistics_of []\<rparr>
   \<and> detect_with_visualization (Inr []) return_image
        = Inr \<lparr>detections = [], stats = statistics_of []\<rparr>"
  by (simp add: statistics_fields quality_of_def py_round_def get_quality_grade_def
      count_where_Nil detect_grains_def detect_with_visualization_def)

text \<open>
  C6. For every list of detections, \<open>good + bad + impurity \<le> total_grains\<close>, with
  equality exactly when every detection carries one of the labels good, bad, impurity. A
  detection with any other label adds one to \<open>total_grains\<close> and nothing to the three
  counters.
\<close>

theorem counts_le_total:
  "good (statistics_of ds) + bad (statistics_of ds) + impurity (statistics_of ds)
     \<le> total_grains (statistics_of ds)
   \<and> (good (statistics_of ds) + bad (statistics_of ds) + impurity (statistics_of ds)
        = total_grains (statistics_of ds)
      \<longleftrightarrow> (\<forall>d \<in> set ds. known_label (class_label d)))
   \<and> (\<not> known_label (class_label d) \<longrightarrow>
        total_grains (statistics_of (d # ds)) = total_grains (statistics_of ds) + 1
      \<and> good (statistics_of (d # ds)) = good (statistics_of ds)
      \<and> bad (statistics_of (d # ds)) = bad (statistics_of ds)
      \<and> impurity (statistics_of (d # ds)) = impurity (statistics_of ds))"
proof (intro conjI impI)
  show "good (statistics_of ds) + bad (statistics_of ds) + impurity (statistics_of ds)
     \<le> total_grains (statistics_of ds)"
    by (simp add: statistics_fields three_counts count_where_le)
  show "good (statistics_of ds) + bad (statistics_of ds) + impurity (statistics_of ds)
        = total_grains (statistics_of ds)
      \<longleftrightarrow> (\<forall>d \<in> set ds. known_label (class_label d))"
    by (simp add: statistics_fields three_counts count_where_eq_length)
next
  assume u: "\<not> known_label (class_label d)"
  then show "total_grains (statistics_of (d # ds)) = total_grains (statistics_of ds) + 1"
    by (simp add: statistics_fields)
  from u show "good (statistics_of (d # ds)) = good (statistics_of ds)"
    by (simp add: statistics_fields count_where_Cons known_label_def)
  from u show "bad (statistics_of (d # ds)) = bad (statistics_of ds)"
    by (simp add: statistics_fields count_where_Cons known_label_def)
  from u show "impurity (statistics_of (d # ds)) = impurity (statistics_of ds)"
    by (simp add: statistics_fields count_where_Cons known_label_def)
qed

theorem counts_le_total_witness:
  "(let ds = parse_boxes 0 [\<lparr>xyxy = (0, 0, 10, 10), cls = 0, conf = 9 / 10\<rparr>,
                           \<lparr>xyxy = (20, 20, 30, 30), cls = 1, conf = 8 / 10\<rparr>,
                           \<lparr>xyxy = (40, 40, 50, 50), cls = 2, conf = 7 / 10\<rparr>];
        d = parse_box 3 \<lparr>xyxy = (0, 0, 10, 10), cls = 5, conf = 9 / 10\<rparr>
    in list_all (\<lambda>x. known_label (class_label x)) ds
       \<and> good (statistics_of ds) + bad (statistics_of ds) + impurity (statistics_of ds) = 3
       \<and> total_grains (statistics_of ds) = 3
       \<and> class_label d = ''unknown_5'' \<and> \<not> known_label (class_label d)
       \<and> good (statistics_of (d # ds)) + bad (statistics_of (d # ds))
            + impurity (statistics_of (d # ds)) = 3
       \<and> total_grains (statistics_of (d # ds)) = 4)"
  using counts_le_total
    [of "parse_boxes 0 [\<lparr>xyxy = (0, 0, 10, 10), cls = 0, conf = 9 / 10\<rparr>,
                        \<lparr>xyxy = (20, 20, 30, 30), cls = 1, conf = 8 / 10\<rparr>,
                        \<lparr>xyxy = (40, 40, 50, 50), cls = 2, conf = 7 / 10\<rparr>]"
        "parse_box 3 \<lparr>xyxy = (0, 0, 10, 10), cls = 5, conf = 9 / 10\<rparr>"]
  by (simp add: Let_def statistics_fields count_where_Cons count_where_Nil class_label_parse_box
      py_int_numeral class_name_get_known class_name_get_def CLASS_NAMES_def str_int_def
      known_label_def)

text \<open>
  C7. The statistics do not depend on the order of the detections: two lists that are
  permutations of each other give the same \<open>total_grains\<close>, counts, \<open>quality_percentage\<close>
  and \<open>quality_grade\<close>.
\<close>

theorem statistics_perm:
  "mset ds = mset ds' \<Longrightarrow> statistics_of ds = statistics_of ds'"
proof -
  assume p: "mset ds = mset ds'"
  have c: "count_where P ds = count_where P ds'" for P
    by (simp add: count_where_mset p)
  have "length ds = length ds'"
    using p by (rule mset_eq_length)
  then show ?thesis
    by (simp add: statistics_of_def c)
qed

theorem statistics_perm_witness:
  "(let ds = parse_boxes 0 [\<lparr>xyxy = (0, 0, 10, 10), cls = 0, conf = 9 / 10\<rparr>,
                           \<lparr>xyxy = (20, 20, 30, 30), cls = 1, conf = 8 / 10\<rparr>,
                           \<lparr>xyxy = (40, 40, 50, 50), cls = 0, conf = 7 / 10\<rparr>]
    in mset ds = mset (rev ds) \<and> ds \<noteq> rev ds
       \<and> statistics_of ds = statistics_of (rev ds)
       \<and> good (statistics_of (rev ds)) = 2 \<and> total_grains (statistics_of (rev ds)) = 3)"
proof -
  define ds where
    "ds = parse_boxes 0 [\<lparr>xyxy = (0, 0, 10, 10), cls = 0, conf = 9 / 10\<rparr>,
             \<lparr>xyxy = (20, 20, 30, 30), cls = 1, conf = 8 / 10\<rparr>,
             \<lparr>xyxy = (40 :: real, 40 :: real, 50 :: real, 50 :: real), cls = 0,
                conf = 7 / 10\<rparr>]"
  have p: "mset ds = mset (rev ds)" by simp
  have n: "ds \<noteq> rev ds" by (simp add: ds_def parse_box_def Let_def)
  have e: "statistics_of ds = statistics_of (rev ds)"
    using statistics_perm [OF p] .
  have g: "good (statistics_of ds) = 2"
    by (simp add: ds_def statistics_fields count_where_Cons count_where_Nil
        class_label_parse_box py_int_numeral class_name_get_known)
  have t: "total_grains (statistics_of ds) = 3"
    by (simp add: ds_def statistics_fields)
  have "mset ds = mset (rev ds) \<and> ds \<noteq> rev ds
       \<and> statistics_of ds = statistics_of (rev ds)
       \<and> good (statistics_of (rev ds)) = 2 \<and> total_grains (statistics_of (rev ds)) = 3"
    using p n e g t by simp
  then show ?thesis unfolding Let_def ds_def .
qed

text \<open>
  C10. \<open>quality_grade\<close> is computed from the unrounded quotient \<open>good / total * 100\<close>, and
  \<open>quality_percentage\<close> is that quotient rounded to two decimals. So the two can disagree
  at a threshold: 861 good grains among 1013 have the quotient 84.995..., below 85; the
  reported percentage is 85 and the grade is C, although the grade of 85 is B.
\<close>

theorem grade_uses_unrounded:
  "quality_grade (statistics_of ds)
     = get_quality_grade (quality_of (good (statistics_of ds)) (total_grains (statistics_of ds)))
   \<and> quality_percentage (statistics_of ds)
     = py_round (quality_of (good (statistics_of ds)) (total_grains (statistics_of ds))) 2
   \<and> (let boxes = replicate 861 \<lparr>xyxy = (0, 0, 10, 10), cls = 0, conf = 9 / 10\<rparr>
                  @ replicate 152 \<lparr>xyxy = (0, 0, 10, 10), cls = 1, conf = 9 / 10\<rparr>;
           s = statistics_of (parse_boxes 0 boxes)
       in good s = 861 \<and> total_grains s = 1013
          \<and> quality_of (good s) (total_grains s) < 85
          \<and> quality_percentage s = 85
          \<and> get_quality_grade 85 = label_B
          \<and> quality_grade s = label_C)"
proof (intro conjI)
  show "quality_grade (statistics_of ds)
     = get_quality_grade (quality_of (good (statistics_of ds)) (total_grains (statistics_of ds)))"
    by (simp add: statistics_fields)
  show "quality_percentage (statistics_of ds)
     = py_round (quality_of (good (statistics_of ds)) (total_grains (statistics_of ds))) 2"
    by (simp add: statistics_fields)
  define boxes where
    "boxes = replicate 861 \<lparr>xyxy = (0, 0, 10, 10), cls = 0, conf = 9 / 10\<rparr>
           @ replicate 152 \<lparr>xyxy = (0 :: real, 0 :: real, 10 :: real, 10 :: real), cls = 1,
                              conf = 9 / 10\<rparr>"
  define s where "s = statistics_of (parse_boxes 0 boxes)"
  have g: "good s = 861"
    by (simp add: s_def boxes_def statistics_fields count_label_parse_boxes count_where_append
        count_where_replicate py_int_numeral class_name_get_known)
  have t: "total_grains s = 1013"
    by (simp add: s_def boxes_def statistics_fields length_parse_boxes)
  have q: "quality_of 861 1013 = 86100 / 1013"
    by (simp add: quality_of_def)
  have r: "py_round (86100 / 1013) 2 = 85"
    by (simp add: py_round_def Let_def)
  have qp: "quality_percentage s = py_round (quality_of (good s) (total_grains s)) 2"
    by (simp add: s_def statistics_fields)
  have qg: "quality_grade s = get_quality_grade (quality_of (good s) (total_grains s))"
    by (simp add: s_def statistics_fields)
  have "good s = 861 \<and> total_grains s = 1013
          \<and> quality_of (good s) (total_grains s) < 85
          \<and> quality_percentage s = 85
          \<and> get_quality_grade 85 = label_B
          \<and> quality_grade s = label_C"
    by (simp add: g t q r qp qg get_quality_grade_def)
  then show "let boxes = replicate 861 \<lparr>xyxy = (0, 0, 10, 10), cls = 0, conf = 9 / 10\<rparr>
                  @ replicate 152 \<lparr>xyxy = (0, 0, 10, 10), cls = 1, conf = 9 / 10\<rparr>;
           s = statistics_of (parse_boxes 0 boxes)
       in good s = 861 \<and> total_grains s = 1013
          \<and> quality_of (good s) (total_grains s) < 85
          \<and> quality_percentage s = 85
          \<and> get_quality_grade 85 = label_B
          \<and> quality_grade s = label_C"
    unfolding Let_def s_def boxes_def .
qed

section \<open>Class labels\<close>

text \<open>
  C3. The claim: the label of a raw detection is the vocabulary entry for the class ids
  0, 1, 2 and \<open>unknown_<id>\<close> for any other id, and an unknown id never makes an endpoint
  that normalizes detections fail. \<open>detect_grains\<close> does so. \<open>detect_with_visualization\<close>
  and \<open>draw_detections\<close> subscript the dictionary instead: on a box of class 5, the first
  answers with the label \<open>unknown_5\<close>, the second with HTTP status 500 and the detail
  \<open>5\<close>, whether a picture is asked for or not.
\<close>

theorem unknown_class_visualization:
  "class_name_get c =
     (if c = 0 then ''good'' else if c = 1 then ''bad'' else if c = 2 then ''impurity''
      else ''unknown_'' @ str_int c)
   \<and> class_label (parse_box 0 \<lparr>xyxy = (0, 0, 10, 10), cls = 5, conf = 9 / 10\<rparr>) = ''unknown_5''
   \<and> (\<exists>r. detect_grains (Inr [\<lparr>xyxy = (0, 0, 10, 10), cls = 5, conf = 9 / 10\<rparr>]) = Inr r)
   \<and> detect_with_visualization (Inr [\<lparr>xyxy = (0, 0, 10, 10), cls = 5, conf = 9 / 10\<rparr>]) True
       = Inl (HTTPException 500 ''5'')
   \<and> detect_with_visualization (Inr [\<lparr>xyxy = (0, 0, 10, 10), cls = 5, conf = 9 / 10\<rparr>]) False
       = Inl (HTTPException 500 ''5'')
   \<and> draw_detections [\<lparr>xyxy = (0, 0, 10, 10), cls = 5, conf = 9 / 10\<rparr>] = Inl (KeyError 5)"
  by (simp add: class_label_parse_box py_int_numeral class_name_get_def CLASS_NAMES_def
      str_int_def detect_grains_def detect_with_visualization_def parse_box_vis_def
      class_name_subscript_def Let_def)

section \<open>Batch processing\<close>

text \<open>
  C9. In \<open>batch_detect\<close> every upload yields exactly one entry of \<open>results\<close>, in the order
  of the uploads. An upload whose processing raises yields the failure entry, with
  \<open>success\<close> false and the message of the exception, and the uploads before and after it
  yield what they yield in a batch without it.
\<close>

theorem batch_failures_isolated:
  "length (results (batch_detect files)) = length files
   \<and> results (batch_detect files) = map batch_one files
   \<and> processed (batch_detect files) = int (length files)
   \<and> batch_one (filename, Inl e) = Failed filename (str_exn e)
   \<and> \<not> success (batch_one (filename, Inl e))
   \<and> success (batch_one (filename, Inr boxes))
   \<and> results (batch_detect (before @ (filename, Inl e) # after))
       = results (batch_detect before) @ Failed filename (str_exn e)
           # results (batch_detect after)"
  by (simp add: batch_detect_def batch_loop_map batch_one_def Let_def)

theorem batch_failures_isolated_witness:
  "results (batch_detect
      [(''a.jpg'', Inr [\<lparr>xyxy = (0, 0, 10, 10), cls = 0, conf = 9 / 10\<rparr>]),
       (''b.txt'', Inl (Raised ''cannot identify image file'')),
       (''c.jpg'', Inr [\<lparr>xyxy = (0, 0, 10, 10), cls = 1, conf = 9 / 10\<rparr>])])
   = [Succeeded ''a.jpg''
        \<lparr>good = 1, bad = 0, impurity = 0, quality_percentage = 100, total = 1\<rparr>,
      Failed ''b.txt'' ''cannot identify image file'',
      Succeeded ''c.jpg''
        \<lparr>good = 0, bad = 1, impurity = 0, quality_percentage = 0, total = 1\<rparr>]"
  using batch_failures_isolated
    [of "[(''a.jpg'', Inr [\<lparr>xyxy = (0, 0, 10, 10), cls = 0, conf = 9 / 10\<rparr>]),
          (''b.txt'', Inl (Raised ''cannot identify image file'')),
          (''c.jpg'', Inr [\<lparr>xyxy = (0, 0, 10, 10), cls = 1, conf = 9 / 10\<rparr>])]"]
  by (simp add: batch_one_def Let_def count_where_Cons count_where_Nil py_int_numeral
      quality_of_def py_round_def)

section \<open>Loss estimator\<close>

text \<open>
  C1. The Loss Estimator returns \<open>N * W1000 * 10 / S\<close> whenever \<open>N \<ge> 0\<close>,
  \<open>W1000 \<ge> 0\<close> and \<open>S > 0\<close>, and fails with \<open>InvalidParameter\<close> exactly when \<open>S \<le> 0\<close>
  or \<open>N < 0\<close> or \<open>W1000 < 0\<close>. The estimator is a function of its parameters alone, so
  an error changes nothing.
\<close>

theorem loss_contract:
  "(0 \<le> N \<and> 0 \<le> W1000 \<and> 0 < S \<longrightarrow> loss N W1000 S = Inr (of_int N * W1000 * 10 / S))
   \<and> (loss N W1000 S = Inl InvalidParameter \<longleftrightarrow> S \<le> 0 \<or> N < 0 \<or> W1000 < 0)"
  by (auto simp: loss_def loss_one_line_def)

theorem loss_contract_witness:
  "loss 25 40 (1 / 10) = Inr 100000 \<and> loss 25 40 0 = Inl InvalidParameter
   \<and> loss (- 1) 40 (1 / 10) = Inl InvalidParameter
   \<and> loss 25 (- 40) (1 / 10) = Inl InvalidParameter"
  using loss_contract [of 25 40 "1 / 10"] loss_contract [of 25 40 0]
    loss_contract [of "- 1" 40 "1 / 10"] loss_contract [of 25 "- 40" "1 / 10"]
  by simp

text \<open>
  C2. The claim: the three-step derivation and the one-line formula give the same number,
  in particular at \<open>N = 25\<close>, \<open>W1000 = 40\<close>, \<open>S = 0.1\<close>. At that input, which is the
  docstring's own worked example, the three steps give 100 and the one-line formula
  gives 100000.
\<close>

theorem loss_formulas_disagree:
  "loss_step1 25 40 = 1
   \<and> loss_step2 (loss_step1 25 40) (1 / 10) = 10
   \<and> loss_three_steps 25 40 (1 / 10) = 100
   \<and> loss_one_line 25 40 (1 / 10) = 100000"
  by (simp add: loss_three_steps_def loss_step1_def loss_step2_def loss_step3_def
      loss_one_line_def)

end
